theory Spec2Isabelle
  imports Main "HOL-Library.Sublist" "HOL-Library.Char_ord" "HOL-Library.List_Lexorder"
    "HOL-Library.Multiset"
begin

section \<open>Strings, paths and exceptions\<close>

text \<open>
  A Python \<open>str\<close> is modelled as a \<open>string\<close>: a list of characters with code points
  below 256. A \<open>pathlib.Path\<close> is modelled by its components (\<open>Path.parts\<close>); an absolute
  path has the component \<open>''/''\<close> first. Comparing two paths compares their component
  lists, as \<open>pathlib\<close> does, so \<open>sorted\<close> on paths is \<open>sort\<close> on lists of strings
  under the lexicographic order of the library.
\<close>

type_synonym path = "string list"

abbreviation NL :: char where
  "NL \<equiv> CHR 0x0A"

abbreviation QUOTE :: char where
  "QUOTE \<equiv> CHR 0x27"

abbreviation DQUOTE :: char where
  "DQUOTE \<equiv> CHR 0x22"

definition str_in :: "string \<Rightarrow> string \<Rightarrow> bool" where
  \<comment> \<open>\<open>sub in s\<close>\<close>
  "str_in sub s = sublist sub s"

definition startswith :: "string \<Rightarrow> string \<Rightarrow> bool" where
  \<comment> \<open>\<open>s.startswith(p)\<close>\<close>
  "startswith s p = prefix p s"

definition lower_char :: "char \<Rightarrow> char" where
  "lower_char c =
     (let n = (of_char c :: nat)
      in if (65 \<le> n \<and> n \<le> 90) \<or> (192 \<le> n \<and> n \<le> 222 \<and> n \<noteq> 215)
         then char_of (n + 32) else c)"

definition lower :: "string \<Rightarrow> string" where
  \<comment> \<open>\<open>s.lower()\<close>\<close>
  "lower s = map lower_char s"

fun join :: "string \<Rightarrow> string list \<Rightarrow> string" where
  \<comment> \<open>\<open>sep.join(xs)\<close>\<close>
  "join sep [] = []"
| "join sep [x] = x"
| "join sep (x # y # ys) = x @ sep @ join sep (y # ys)"

definition path_str :: "path \<Rightarrow> string" where
  \<comment> \<open>\<open>str(p)\<close>\<close>
  "path_str p =
     (case p of
        [] \<Rightarrow> ''.''
      | r # ps \<Rightarrow> if r = ''/'' then ''/'' @ join ''/'' ps else join ''/'' (r # ps))"

definition path_name :: "path \<Rightarrow> string" where
  \<comment> \<open>\<open>p.name\<close>: the final component, empty for the root and for the empty path\<close>
  "path_name p = (if p = [] \<or> p = [''/''] then [] else last p)"

definition parent :: "path \<Rightarrow> path" where
  \<comment> \<open>\<open>p.parent\<close>\<close>
  "parent p = (if p = [] \<or> p = [''/''] then p else butlast p)"

definition suffix_of :: "string \<Rightarrow> string" where
  \<comment> \<open>\<open>p.suffix\<close> of a path whose name is \<open>name\<close>:
      \<open>i = name.rfind('.')\<close>; \<open>name[i:]\<close> if \<open>0 < i < len(name) - 1\<close>, else empty\<close>
  "suffix_of name =
     (let ext = rev (takeWhile (\<lambda>c. c \<noteq> CHR ''.'') (rev name))
      in if CHR ''.'' \<in> set name \<and> ext \<noteq> [] \<and> length ext + 1 < length name
         then CHR ''.'' # ext else [])"

definition basename :: "string \<Rightarrow> string" where
  \<comment> \<open>\<open>os.path.basename(s)\<close>: what follows the last \<open>'/'\<close>\<close>
  "basename s = rev (takeWhile (\<lambda>c. c \<noteq> CHR ''/'') (rev s))"

text \<open>
  The exceptions the script can meet, each with the text \<open>str(e)\<close> prints. The script
  tells \<open>yaml.YAMLError\<close> from every other \<open>Exception\<close>; the other names only document
  where an exception comes from.
\<close>

datatype exn =
    YAMLError string
  | OSError string
  | AttributeError string
  | TypeError string
  | ValueError string

fun exn_name :: "exn \<Rightarrow> string" where
  "exn_name (YAMLError s) = ''yaml.YAMLError''"
| "exn_name (OSError s) = ''OSError''"
| "exn_name (AttributeError s) = ''AttributeError''"
| "exn_name (TypeError s) = ''TypeError''"
| "exn_name (ValueError s) = ''ValueError''"

fun exn_text :: "exn \<Rightarrow> string" where
  "exn_text (YAMLError s) = s"
| "exn_text (OSError s) = s"
| "exn_text (AttributeError s) = s"
| "exn_text (TypeError s) = s"
| "exn_text (ValueError s) = s"

section \<open>YAML values\<close>

text \<open>
  What \<open>yaml.safe_load\<close> can return. The script only asks of a value whether it is a
  \<open>str\<close>, a \<open>list\<close> or a \<open>dict\<close>, whether it is true, and iterates it; \<open>YOther\<close> stands
  for every remaining value (a float, a date, a timestamp, a pair of an \<open>!!omap\<close> or
  \<open>!!pairs\<close> list) and carries the name of its type and its truth value. A \<open>dict\<close> is an
  association list read with \<open>map_of\<close>; a \<open>set\<close> is the list of its elements in
  iteration order.
\<close>

datatype yaml =
    YNull
  | YBool bool
  | YInt int
  | YStr string
  | YBytes string
  | YList "yaml list"
  | YSet "yaml list"
  | YDict "(yaml \<times> yaml) list"
  | YOther string bool

fun truthy :: "yaml \<Rightarrow> bool" where
  "truthy YNull = False"
| "truthy (YBool b) = b"
| "truthy (YInt i) = (i \<noteq> 0)"
| "truthy (YStr s) = (s \<noteq> [])"
| "truthy (YBytes b) = (b \<noteq> [])"
| "truthy (YList xs) = (xs \<noteq> [])"
| "truthy (YSet xs) = (xs \<noteq> [])"
| "truthy (YDict kvs) = (kvs \<noteq> [])"
| "truthy (YOther ty b) = b"

fun type_name :: "yaml \<Rightarrow> string" where
  "type_name YNull = ''NoneType''"
| "type_name (YBool b) = ''bool''"
| "type_name (YInt i) = ''int''"
| "type_name (YStr s) = ''str''"
| "type_name (YBytes b) = ''bytes''"
| "type_name (YList xs) = ''list''"
| "type_name (YSet xs) = ''set''"
| "type_name (YDict kvs) = ''dict''"
| "type_name (YOther ty b) = ty"

fun py_iter :: "yaml \<Rightarrow> exn + yaml list" where
  \<comment> \<open>the values a \<open>for\<close> loop over \<open>v\<close> visits, or the \<open>TypeError\<close> of a value that is
      not iterable\<close>
  "py_iter (YList xs) = Inr xs"
| "py_iter (YSet xs) = Inr xs"
| "py_iter (YDict kvs) = Inr (map fst kvs)"
| "py_iter (YStr s) = Inr (map (\<lambda>c. YStr [c]) s)"
| "py_iter (YBytes b) = Inr (map (\<lambda>c. YInt (of_char c)) b)"
| "py_iter v = Inl (TypeError ([QUOTE] @ type_name v @ [QUOTE] @ '' object is not iterable''))"

section \<open>The file system and the YAML loader\<close>

text \<open>
  Everything the script asks of its environment. \<open>kustomization_dirs\<close> is what
  \<open>manifests_dir.rglob("kustomization.yaml")\<close> yields, in traversal order: each hit is
  given by its directory, relative to the manifests directory. \<open>iterdir\<close> lists a
  directory as pairs of an entry name and the answer of \<open>is_file()\<close>. \<open>read_text\<close> and
  \<open>safe_load\<close> return a value or the exception they raise; \<open>safe_load\<close> is PyYAML's and
  is not part of the script.
\<close>

record world =
  project_root :: path
  path_exists :: "path \<Rightarrow> bool"
  kustomization_dirs :: "path list"
  iterdir :: "path \<Rightarrow> (string \<times> bool) list"
  read_text :: "path \<Rightarrow> exn + string"
  safe_load :: "string \<Rightarrow> exn + yaml"

section \<open>KustomizationParser\<close>

definition FILE_REFERENCE_FIELDS :: "string list" where
  "FILE_REFERENCE_FIELDS =
     [''resources'', ''patches'', ''patchesStrategicMerge'', ''patchesJson6902'',
      ''configurations'', ''crds'', ''openapi'', ''generators'', ''transformers'',
      ''components'', ''configMapGenerator'', ''secretGenerator'']"

text \<open>
  The parser fills the set \<open>referenced\<close> in place, so what was added before an exception
  stays in it: a step returns the set together with the exception, if one was raised.
\<close>

datatype outcome = Done "string set" | Raised exn "string set"

fun referenced_of :: "outcome \<Rightarrow> string set" where
  \<comment> \<open>the set as a step leaves it\<close>
  "referenced_of (Done referenced) = referenced"
| "referenced_of (Raised e referenced) = referenced"

fun for_each :: "('a \<Rightarrow> string set \<Rightarrow> outcome) \<Rightarrow> 'a list \<Rightarrow> string set \<Rightarrow> outcome" where
  \<comment> \<open>a \<open>for\<close> loop whose body may raise\<close>
  "for_each body [] referenced = Done referenced"
| "for_each body (x # xs) referenced =
     (case body x referenced of
        Done referenced' \<Rightarrow> for_each body xs referenced'
      | Raised e referenced' \<Rightarrow> Raised e referenced')"

definition add_local_file :: "yaml \<Rightarrow> string set \<Rightarrow> outcome" where
  \<comment> \<open>\<open>if path and not path.startswith('http')\<close>: a true value that is not a \<open>str\<close> has no
      (or another) \<open>startswith\<close>, and the call raises\<close>
  "add_local_file path referenced =
     (if \<not> truthy path then Done referenced
      else case path of
        YStr s \<Rightarrow>
          if startswith s ''http'' then Done referenced
          else if CHR ''/'' \<notin> set s \<or> startswith s ''./''
            then Done (insert (basename s) referenced)
            else Done referenced
      | YBytes b \<Rightarrow>
          Raised (TypeError ''startswith first arg must be bytes or a tuple of bytes, not str'')
            referenced
      | v \<Rightarrow>
          Raised (AttributeError ([QUOTE] @ type_name v @ [QUOTE]
                    @ '' object has no attribute '' @ [QUOTE] @ ''startswith'' @ [QUOTE]))
            referenced)"

definition extract_file_reference :: "yaml \<Rightarrow> string set \<Rightarrow> outcome" where
  "extract_file_reference item referenced =
     (case item of
        YStr s \<Rightarrow>
          if \<not> startswith s ''http'' then add_local_file item referenced
          else Done referenced
      | YDict kvs \<Rightarrow>
          (case map_of kvs (YStr ''files'') of
             Some files \<Rightarrow>
               (case py_iter files of
                  Inl e \<Rightarrow> Raised e referenced
                | Inr fs \<Rightarrow>
                    for_each
                      (\<lambda>file r. case file of YStr s \<Rightarrow> add_local_file file r | _ \<Rightarrow> Done r)
                      fs referenced)
           | None \<Rightarrow>
               (case map_of kvs (YStr ''path'') of
                  Some p \<Rightarrow> add_local_file p referenced
                | None \<Rightarrow> Done referenced))
      | _ \<Rightarrow> Done referenced)"

definition parse_yaml_references :: "(yaml \<times> yaml) list \<Rightarrow> string set \<Rightarrow> outcome" where
  "parse_yaml_references data referenced =
     (case for_each
             (\<lambda>field r.
                case map_of data (YStr field) of
                  Some v \<Rightarrow>
                    if truthy v
                    then (case v of
                            YList items \<Rightarrow> for_each extract_file_reference items r
                          | _ \<Rightarrow> Done r)
                    else Done r
                | None \<Rightarrow> Done r)
             FILE_REFERENCE_FIELDS referenced of
        Raised e referenced' \<Rightarrow> Raised e referenced'
      | Done referenced' \<Rightarrow>
          (case map_of data (YStr ''patches'') of
             Some (YList patches) \<Rightarrow>
               for_each
                 (\<lambda>patch r.
                    case patch of
                      YDict kvs \<Rightarrow>
                        (case map_of kvs (YStr ''path'') of
                           Some p \<Rightarrow> add_local_file p r
                         | None \<Rightarrow> Done r)
                    | _ \<Rightarrow> Done r)
                 patches referenced'
           | _ \<Rightarrow> Done referenced'))"

subsection \<open>The fallback pattern\<close>

text \<open>
  The pattern is \<^verbatim>\<open>^\s*-\s*([^/\s#]+\.(yaml|yml))\s*(?:#.*)?$\<close> with \<open>re.MULTILINE\<close>.
  A backtracking matcher tries the alternatives of every choice in a fixed order and
  returns the first way through; each piece of the pattern below maps a remaining input
  to the list of its ways of matching a prefix of it, in the order the matcher tries
  them (a greedy repetition: longest first), and the pattern is their composition.
\<close>

definition is_space :: "char \<Rightarrow> bool" where
  \<comment> \<open>\<^verbatim>\<open>\s\<close> of a \<open>str\<close> pattern, on code points below 256\<close>
  "is_space c =
     (let n = (of_char c :: nat)
      in (9 \<le> n \<and> n \<le> 13) \<or> (28 \<le> n \<and> n \<le> 32) \<or> n = 133 \<or> n = 160)"

definition is_name_char :: "char \<Rightarrow> bool" where
  \<comment> \<open>\<^verbatim>\<open>[^/\s#]\<close>\<close>
  "is_name_char c = (c \<noteq> CHR ''/'' \<and> \<not> is_space c \<and> c \<noteq> CHR ''#'')"

definition is_dot_char :: "char \<Rightarrow> bool" where
  \<comment> \<open>\<^verbatim>\<open>.\<close>: anything but a newline\<close>
  "is_dot_char c = (c \<noteq> NL)"

fun re_star :: "(char \<Rightarrow> bool) \<Rightarrow> string \<Rightarrow> (string \<times> string) list" where
  \<comment> \<open>\<open>c*\<close> for a character class: what was consumed and what remains\<close>
  "re_star cls [] = [([], [])]"
| "re_star cls (c # cs) =
     (if cls c then map (\<lambda>(taken, rest). (c # taken, rest)) (re_star cls cs) else [])
     @ [([], c # cs)]"

definition re_plus :: "(char \<Rightarrow> bool) \<Rightarrow> string \<Rightarrow> (string \<times> string) list" where
  \<comment> \<open>\<open>c+\<close>\<close>
  "re_plus cls xs =
     (case xs of
        [] \<Rightarrow> []
      | c # cs \<Rightarrow>
          if cls c then map (\<lambda>(taken, rest). (c # taken, rest)) (re_star cls cs) else [])"

definition re_lit :: "string \<Rightarrow> string \<Rightarrow> string list" where
  \<comment> \<open>a literal\<close>
  "re_lit s xs = (if prefix s xs then [drop (length s) xs] else [])"

definition at_eol :: "string \<Rightarrow> bool" where
  \<comment> \<open>\<open>$\<close> under \<open>MULTILINE\<close>: at the end of the input or before a newline\<close>
  "at_eol xs = (case xs of [] \<Rightarrow> True | c # _ \<Rightarrow> c = NL)"

definition at_bol :: "string \<Rightarrow> nat \<Rightarrow> bool" where
  \<comment> \<open>\<open>^\<close> under \<open>MULTILINE\<close>: at the start of the input or after a newline\<close>
  "at_bol content i = (i = 0 \<or> content ! (i - 1) = NL)"

definition group1_matches :: "string \<Rightarrow> (string \<times> string) list" where
  \<comment> \<open>\<^verbatim>\<open>([^/\s#]+\.(yaml|yml))\<close>: the text of the group and the remaining input\<close>
  "group1_matches xs =
     [(stem @ ''.'' @ ext, r3).
        (stem, r1) \<leftarrow> re_plus is_name_char xs,
        r2 \<leftarrow> re_lit ''.'' r1,
        (ext, r3) \<leftarrow> map (Pair ''yaml'') (re_lit ''yaml'' r2)
                      @ map (Pair ''yml'') (re_lit ''yml'' r2)]"

definition trailer_matches :: "string \<Rightarrow> string list" where
  \<comment> \<open>\<^verbatim>\<open>\s*(?:#.*)?$\<close>: the remaining input\<close>
  "trailer_matches xs =
     [r2.
        (ws, r1) \<leftarrow> re_star is_space xs,
        r2 \<leftarrow> [r. r' \<leftarrow> re_lit ''#'' r1, (cm, r) \<leftarrow> re_star is_dot_char r'] @ [r1],
        at_eol r2]"

definition pattern_matches :: "string \<Rightarrow> (string \<times> string) list" where
  \<comment> \<open>the pattern after \<open>^\<close>: group 1 and the remaining input, for every way of matching\<close>
  "pattern_matches xs =
     [(g, r5).
        (ws1, r1) \<leftarrow> re_star is_space xs,
        r2 \<leftarrow> re_lit ''-'' r1,
        (ws2, r3) \<leftarrow> re_star is_space r2,
        (g, r4) \<leftarrow> group1_matches r3,
        r5 \<leftarrow> trailer_matches r4]"

function finditer :: "string \<Rightarrow> nat \<Rightarrow> string list" where
  \<comment> \<open>\<open>pattern.finditer(content)\<close> from position \<open>i\<close> on: group 1 of the successive
      matches. A search that fails at \<open>i\<close> moves to \<open>i + 1\<close>; after a match the search
      goes on where the match ended\<close>
  "finditer content i =
     (if length content < i then []
      else case (if at_bol content i then pattern_matches (drop i content) else []) of
        [] \<Rightarrow> finditer content (Suc i)
      | (g, r) # _ \<Rightarrow>
          g # finditer content
                (if i < length content - length r then length content - length r else Suc i))"
  by pat_completeness auto
termination
  by (relation "measure (\<lambda>(content, i). Suc (length content) - i)") auto

declare finditer.simps [simp del]

definition parse_regex_references :: "string \<Rightarrow> string set \<Rightarrow> string set" where
  "parse_regex_references content referenced = fold insert (finditer content 0) referenced"

definition error_reading :: "path \<Rightarrow> exn \<Rightarrow> string" where
  "error_reading kustomization_path e =
     ''Error reading '' @ path_str kustomization_path @ '': '' @ exn_text e"

definition get_referenced_files :: "world \<Rightarrow> path \<Rightarrow> string set \<times> string list" where
  \<comment> \<open>the set returned and the lines written to the diagnostic stream\<close>
  "get_referenced_files w kustomization_path =
     (case read_text w kustomization_path of
        Inl e \<Rightarrow> ({}, [error_reading kustomization_path e])
      | Inr content \<Rightarrow>
          (case safe_load w content of
             Inl e \<Rightarrow>
               (case e of
                  YAMLError m \<Rightarrow> (parse_regex_references content {}, [])
                | _ \<Rightarrow> ({}, [error_reading kustomization_path e]))
           | Inr data \<Rightarrow>
               (case data of
                  YDict kvs \<Rightarrow>
                    (case parse_yaml_references kvs {} of
                       Done referenced \<Rightarrow> (referenced, [])
                     | Raised e referenced \<Rightarrow>
                         (referenced, [error_reading kustomization_path e]))
                | _ \<Rightarrow> ({}, []))))"

section \<open>UnreferencedFileAnalyzer\<close>

datatype FileStatus = SAFE_TO_REMOVE | NEEDS_REVIEW

record AnalysisResult =
  filepath :: path
  status :: FileStatus
  reason :: string

definition SAFE_PATTERNS :: "string list" where
  "SAFE_PATTERNS =
     [''job-'', ''-job.yaml'', ''postgres-setup.yaml'', ''vault-secrets-init.yaml'',
      ''authelia-db-'', ''fix-pool-size.yaml'', ''job.yaml'']"

definition IMPORTANT_MARKERS :: "string list" where
  "IMPORTANT_MARKERS = [''IMPORTANT'', ''DO NOT DELETE'', ''KEEP'']"

definition TEST_PATTERNS :: "string list" where
  "TEST_PATTERNS = [''test'', ''example'', ''sample'', ''.bak'', ''.old'']"

definition manifests_dir :: "world \<Rightarrow> path" where
  "manifests_dir w = project_root w @ [''manifests'']"

definition yaml_files :: "world \<Rightarrow> path \<Rightarrow> string list" where
  \<comment> \<open>the names of the YAML files directly in \<open>directory\<close>\<close>
  "yaml_files w directory =
     map fst
       (filter
          (\<lambda>(name, is_file).
             is_file \<and> (suffix_of name = ''.yaml'' \<or> suffix_of name = ''.yml'')
             \<and> name \<noteq> ''kustomization.yaml'')
          (iterdir w directory))"

definition find_unreferenced_in_directory :: "world \<Rightarrow> path \<Rightarrow> path list \<times> string list" where
  \<comment> \<open>the list returned and the lines written to the diagnostic stream\<close>
  "find_unreferenced_in_directory w directory =
     (let kustomization_path = directory @ [''kustomization.yaml'']
      in if \<not> path_exists w kustomization_path then ([], [])
         else
           let (referenced, diag) = get_referenced_files w kustomization_path
           in (map (\<lambda>filename. directory @ [filename])
                 (filter (\<lambda>filename. filename \<notin> referenced) (yaml_files w directory)),
               diag))"

definition find_all_unreferenced :: "world \<Rightarrow> path list \<times> string list" where
  "find_all_unreferenced w =
     (let found = map (\<lambda>rel. find_unreferenced_in_directory w (manifests_dir w @ rel))
                    (kustomization_dirs w)
      in (sort (concat (map fst found)), concat (map snd found)))"

definition analyze_file :: "world \<Rightarrow> path \<Rightarrow> AnalysisResult" where
  "analyze_file w fp =
     (case read_text w fp of
        Inl e \<Rightarrow>
          \<lparr>filepath = fp, status = NEEDS_REVIEW,
           reason = ''Error reading file: '' @ exn_text e\<rparr>
      | Inr content \<Rightarrow>
          if list_ex (\<lambda>marker. str_in marker content) IMPORTANT_MARKERS then
            \<lparr>filepath = fp, status = NEEDS_REVIEW, reason = ''Contains important markers''\<rparr>
          else if str_in ''kind: Job'' content \<and>
                  (str_in ''job-'' (path_name fp) \<or> str_in ''-job'' (path_name fp)) then
            \<lparr>filepath = fp, status = SAFE_TO_REMOVE,
             reason = ''Old Job file (likely replaced by workflow)''\<rparr>
          else if list_ex (\<lambda>pattern. str_in pattern (path_str fp)) SAFE_PATTERNS then
            \<lparr>filepath = fp, status = SAFE_TO_REMOVE, reason = ''Matches old job pattern''\<rparr>
          else if list_ex (\<lambda>pattern. str_in pattern (lower (path_name fp))) TEST_PATTERNS then
            \<lparr>filepath = fp, status = SAFE_TO_REMOVE, reason = ''Test/example/backup file''\<rparr>
          else
            \<lparr>filepath = fp, status = NEEDS_REVIEW,
             reason = ''Unknown file - manual review needed''\<rparr>)"

section \<open>The program\<close>

text \<open>
  A run of \<open>main\<close>: the arguments of the successive \<open>print\<close> calls on standard output,
  the lines on the diagnostic stream, and the exit status. The two marks of the report
  that are not ASCII are written as their UTF-8 bytes. An exception nothing catches
  ends the run with status 1 after the interpreter has reported it.
\<close>

record run =
  stdout :: "string list"
  stderr :: "string list"
  exit_status :: nat

definition CHECK_MARK :: string where
  "CHECK_MARK = [CHR 0xE2, CHR 0x9C, CHR 0x93]"

definition WARNING_SIGN :: string where
  "WARNING_SIGN = [CHR 0xE2, CHR 0x9A, CHR 0xA0]"

fun str_nat :: "nat \<Rightarrow> string" where
  \<comment> \<open>a length, formatted in decimal\<close>
  "str_nat n =
     (if n < 10 then [char_of (48 + n)] else str_nat (n div 10) @ [char_of (48 + n mod 10)])"

definition relative_to :: "path \<Rightarrow> path \<Rightarrow> exn + path" where
  \<comment> \<open>\<open>p.relative_to(other)\<close>\<close>
  "relative_to p other =
     (if prefix other p then Inr (drop (length other) p)
      else Inl (ValueError ([QUOTE] @ path_str p @ [QUOTE] @ '' is not in the subpath of ''
                  @ [QUOTE] @ path_str other @ [QUOTE])))"

fun print_each :: "('a \<Rightarrow> exn + string list) \<Rightarrow> 'a list \<Rightarrow> string list \<times> exn option" where
  \<comment> \<open>a loop that prints: what was printed, and the exception that stopped it, if any\<close>
  "print_each f [] = ([], None)"
| "print_each f (x # xs) =
     (case f x of
        Inl e \<Rightarrow> ([], Some e)
      | Inr ls \<Rightarrow> (case print_each f xs of (out, raised) \<Rightarrow> (ls @ out, raised)))"

fun collect :: "('a \<Rightarrow> exn + 'b) \<Rightarrow> 'a list \<Rightarrow> exn + 'b list" where
  "collect f [] = Inr []"
| "collect f (x # xs) =
     (case f x of
        Inl e \<Rightarrow> Inl e
      | Inr y \<Rightarrow> (case collect f xs of Inl e \<Rightarrow> Inl e | Inr ys \<Rightarrow> Inr (y # ys)))"

definition and_then ::
  "string list \<times> exn option \<Rightarrow> string list \<times> exn option \<Rightarrow> string list \<times> exn option" where
  \<comment> \<open>one part of the report after another: the second is printed if the first did not raise\<close>
  "and_then a b = (case snd a of Some e \<Rightarrow> a | None \<Rightarrow> (fst a @ fst b, snd b))"

definition display_result :: "path \<Rightarrow> AnalysisResult \<Rightarrow> exn + string list" where
  "display_result root result =
     (case relative_to (filepath result) root of
        Inl e \<Rightarrow> Inl e
      | Inr rel_path \<Rightarrow>
          Inr (if status result = SAFE_TO_REMOVE
               then [CHECK_MARK @ '' SAFE TO REMOVE: '' @ path_str rel_path,
                     ''  Reason: '' @ reason result, []]
               else [WARNING_SIGN @ '' NEEDS REVIEW: '' @ path_str rel_path,
                     ''  Reason: '' @ reason result, []]))"

definition list_result :: "path \<Rightarrow> AnalysisResult \<Rightarrow> exn + string list" where
  "list_result root result =
     (case relative_to (filepath result) root of
        Inl e \<Rightarrow> Inl e
      | Inr rel_path \<Rightarrow> Inr [''  '' @ path_str rel_path])"

definition removal_command :: "path \<Rightarrow> AnalysisResult list \<Rightarrow> exn + string list" where
  "removal_command root safe_to_remove =
     (case collect (\<lambda>r. relative_to (filepath r) root) safe_to_remove of
        Inl e \<Rightarrow> Inl e
      | Inr rels \<Rightarrow>
          Inr [''  rm '' @ join '' '' (map (\<lambda>rel. [DQUOTE] @ path_str rel @ [DQUOTE]) rels)])"

definition report :: "path \<Rightarrow> AnalysisResult list \<Rightarrow> string list \<times> exn option" where
  \<comment> \<open>what \<open>main\<close> prints once the files are analysed\<close>
  "report root results =
     (let safe_to_remove = filter (\<lambda>r. status r = SAFE_TO_REMOVE) results;
          needs_review = filter (\<lambda>r. status r \<noteq> SAFE_TO_REMOVE) results
      in and_then ([NL # ''=== Unreferenced YAML Files Analysis ==='' @ [NL]], None)
        (and_then (print_each (display_result root) results)
        (and_then ([NL # ''Summary:'',
                    ''- Safe to remove: '' @ str_nat (length safe_to_remove) @ '' files'',
                    ''- Needs review: '' @ str_nat (length needs_review) @ '' files''], None)
        (and_then (if safe_to_remove \<noteq> []
                   then and_then ([NL # ''Files safe to remove:''], None)
                          (print_each (list_result root) safe_to_remove)
                   else ([], None))
        (and_then (if needs_review \<noteq> []
                   then and_then ([NL # ''Files needing review:''], None)
                          (print_each (list_result root) needs_review)
                   else ([], None))
                  (if safe_to_remove \<noteq> []
                   then and_then ([NL # ''To remove safe files, run:''], None)
                          (print_each (removal_command root) [safe_to_remove])
                   else ([], None)))))))"

definition uncaught :: "exn \<Rightarrow> string list" where
  "uncaught e = [''Traceback (most recent call last):'', exn_name e @ '': '' @ exn_text e]"

definition main :: "world \<Rightarrow> run" where
  "main w =
     (if \<not> path_exists w (manifests_dir w) then
        \<lparr>stdout = [],
         stderr = [''Error: manifests directory not found at '' @ path_str (manifests_dir w)],
         exit_status = 1\<rparr>
      else
        case find_all_unreferenced w of
          (unreferenced_files, diag) \<Rightarrow>
            if unreferenced_files = [] then
              \<lparr>stdout = [''Scanning for unreferenced YAML files...'',
                         ''No unreferenced files found!''],
               stderr = diag, exit_status = 0\<rparr>
            else
              case and_then ([''Scanning for unreferenced YAML files...''], None)
                     (report (project_root w) (map (analyze_file w) unreferenced_files)) of
                (out, raised) \<Rightarrow>
                  \<lparr>stdout = out,
                   stderr = diag @ (case raised of None \<Rightarrow> [] | Some e \<Rightarrow> uncaught e),
                   exit_status = (case raised of None \<Rightarrow> 0 | Some e \<Rightarrow> 1)\<rparr>)"

section \<open>Example trees\<close>

text \<open>
  A project at \<open>/repo\<close> with one directory \<open>manifests/app\<close>. Its \<open>kustomization.yaml\<close>
  lists \<open>deployment.yaml\<close>; beside it lie \<open>deployment.yaml\<close>, \<open>old-job.yaml\<close> (a Job) and
  \<open>config-test.yaml\<close>, and a subdirectory \<open>base\<close>.
\<close>

definition app_dir :: path where
  "app_dir = [''/'', ''repo'', ''manifests'', ''app'']"

definition app_kustomization :: string where
  "app_kustomization = ''resources:'' @ [NL] @ ''  - deployment.yaml'' @ [NL]"

definition app_read :: "path \<Rightarrow> exn + string" where
  "app_read p =
     (if p = app_dir @ [''kustomization.yaml''] then Inr app_kustomization
      else if p = app_dir @ [''deployment.yaml''] then Inr (''kind: Deployment'' @ [NL])
      else if p = app_dir @ [''old-job.yaml''] then Inr (''kind: Job'' @ [NL])
      else if p = app_dir @ [''config-test.yaml''] then Inr (''kind: ConfigMap'' @ [NL])
      else Inl (OSError ''[Errno 2] No such file or directory''))"

definition app_load :: "string \<Rightarrow> exn + yaml" where
  "app_load content =
     (if content = app_kustomization
      then Inr (YDict [(YStr ''resources'', YList [YStr ''deployment.yaml''])])
      else Inl (YAMLError ''could not parse''))"

definition app_world :: world where
  "app_world =
     \<lparr>project_root = [''/'', ''repo''],
      path_exists = (\<lambda>p. p = [''/'', ''repo'', ''manifests'']
                          \<or> p = app_dir @ [''kustomization.yaml'']),
      kustomization_dirs = [[''app'']],
      iterdir = (\<lambda>d. if d = app_dir
                      then [(''kustomization.yaml'', True), (''deployment.yaml'', True),
                            (''old-job.yaml'', True), (''config-test.yaml'', True),
                            (''base'', False)]
                      else []),
      read_text = app_read,
      safe_load = app_load\<rparr>"

text \<open>The same tree, listed by the file system in another order.\<close>

definition app_world_reordered :: world where
  "app_world_reordered =
     app_world\<lparr>iterdir := (\<lambda>d. if d = app_dir
                      then [(''config-test.yaml'', True), (''base'', False),
                            (''old-job.yaml'', True), (''deployment.yaml'', True),
                            (''kustomization.yaml'', True)]
                      else [])\<rparr>"

text \<open>
  The same tree where every file has the content \<open>content\<close> (or cannot be read) and the
  loader answers \<open>loaded\<close>.
\<close>

definition app_world_with :: "(exn + string) \<Rightarrow> (exn + yaml) \<Rightarrow> world" where
  "app_world_with content loaded =
     app_world\<lparr>read_text := (\<lambda>p. content), safe_load := (\<lambda>c. loaded)\<rparr>"

text \<open>A project without a \<open>manifests\<close> directory.\<close>

definition bare_world :: world where
  "bare_world = app_world\<lparr>path_exists := (\<lambda>p. False)\<rparr>"

section \<open>Classification\<close>

text \<open>
  C1. A readable file whose content contains \<open>IMPORTANT\<close>, \<open>DO NOT DELETE\<close> or \<open>KEEP\<close> is
  classified needs-review with the reason about important markers, whatever its name,
  its path and the rest of its content are: no later rule is consulted.
\<close>

theorem analyze_file_important_markers:
  assumes "read_text w fp = Inr content"
    and "str_in ''IMPORTANT'' content \<or> str_in ''DO NOT DELETE'' content
         \<or> str_in ''KEEP'' content"
  shows "analyze_file w fp =
           \<lparr>filepath = fp, status = NEEDS_REVIEW, reason = ''Contains important markers''\<rparr>"
  using assms by (auto simp: analyze_file_def IMPORTANT_MARKERS_def)

text \<open>
  A file named \<open>job-test.yaml\<close> that holds a Job and the marker \<open>KEEP\<close>: the Job rule, the
  old-pattern rule and the test rule all apply to it, and it is still needs-review.
\<close>

theorem analyze_file_important_markers_witness:
  "read_text (app_world_with (Inr (''# KEEP'' @ [NL] @ ''kind: Job'')) (Inr YNull))
       (app_dir @ [''job-test.yaml'']) = Inr (''# KEEP'' @ [NL] @ ''kind: Job'')
   \<and> str_in ''KEEP'' (''# KEEP'' @ [NL] @ ''kind: Job'')
   \<and> analyze_file (app_world_with (Inr (''# KEEP'' @ [NL] @ ''kind: Job'')) (Inr YNull))
         (app_dir @ [''job-test.yaml'']) =
       \<lparr>filepath = app_dir @ [''job-test.yaml''], status = NEEDS_REVIEW,
        reason = ''Contains important markers''\<rparr>"
proof -
  let ?c = "''# KEEP'' @ [NL] @ ''kind: Job''"
  let ?w = "app_world_with (Inr ?c) (Inr YNull)"
  have r: "read_text ?w (app_dir @ [''job-test.yaml'']) = Inr ?c"
    by (simp add: app_world_with_def)
  have k: "str_in ''KEEP'' ?c"
    by code_simp
  show ?thesis
    using r k analyze_file_important_markers [of ?w "app_dir @ [''job-test.yaml'']" ?c]
    by blast
qed

text \<open>
  C4. A readable file whose lower-cased name contains \<open>test\<close>, \<open>example\<close>, \<open>sample\<close>,
  \<open>.bak\<close> or \<open>.old\<close>, whose content holds none of the important markers and which does
  not match the Job rule, is classified safe-to-remove.
\<close>

theorem analyze_file_test_patterns:
  assumes "read_text w fp = Inr content"
    and "str_in ''test'' (lower (path_name fp)) \<or> str_in ''example'' (lower (path_name fp))
         \<or> str_in ''sample'' (lower (path_name fp)) \<or> str_in ''.bak'' (lower (path_name fp))
         \<or> str_in ''.old'' (lower (path_name fp))"
    and "\<not> str_in ''IMPORTANT'' content" and "\<not> str_in ''DO NOT DELETE'' content"
    and "\<not> str_in ''KEEP'' content"
    and "\<not> (str_in ''kind: Job'' content \<and>
             (str_in ''job-'' (path_name fp) \<or> str_in ''-job'' (path_name fp)))"
  shows "status (analyze_file w fp) = SAFE_TO_REMOVE"
  using assms by (auto simp: analyze_file_def IMPORTANT_MARKERS_def TEST_PATTERNS_def)

text \<open>The file \<open>config-test.yaml\<close> of the example tree.\<close>

theorem analyze_file_test_patterns_witness:
  "read_text app_world (app_dir @ [''config-test.yaml'']) = Inr (''kind: ConfigMap'' @ [NL])
   \<and> str_in ''test'' (lower (path_name (app_dir @ [''config-test.yaml''])))
   \<and> \<not> str_in ''IMPORTANT'' (''kind: ConfigMap'' @ [NL])
   \<and> \<not> str_in ''DO NOT DELETE'' (''kind: ConfigMap'' @ [NL])
   \<and> \<not> str_in ''KEEP'' (''kind: ConfigMap'' @ [NL])
   \<and> \<not> str_in ''kind: Job'' (''kind: ConfigMap'' @ [NL])
   \<and> status (analyze_file app_world (app_dir @ [''config-test.yaml''])) = SAFE_TO_REMOVE"
proof -
  let ?c = "''kind: ConfigMap'' @ [NL]"
  let ?p = "app_dir @ [''config-test.yaml'']"
  have r: "read_text app_world ?p = Inr ?c"
    by (simp add: app_world_def app_read_def app_dir_def)
  have t: "str_in ''test'' (lower (path_name ?p))"
    by code_simp
  have m: "\<not> str_in ''IMPORTANT'' ?c" "\<not> str_in ''DO NOT DELETE'' ?c" "\<not> str_in ''KEEP'' ?c"
    by code_simp+
  have j: "\<not> str_in ''kind: Job'' ?c"
    by code_simp
  show ?thesis
    using r t m j analyze_file_test_patterns [of app_world ?p ?c]
    by blast
qed

text \<open>
  C8. A file that cannot be read is classified needs-review, with the text of the read
  error in the reason; \<open>analyze_file\<close> returns a result on every input.
\<close>

theorem analyze_file_unreadable:
  assumes "read_text w fp = Inl e"
  shows "analyze_file w fp =
           \<lparr>filepath = fp, status = NEEDS_REVIEW,
            reason = ''Error reading file: '' @ exn_text e\<rparr>"
  using assms by (simp add: analyze_file_def)

text \<open>A file of the example tree that is gone when it is read.\<close>

theorem analyze_file_unreadable_witness:
  "read_text app_world (app_dir @ [''gone.yaml'']) = Inl (OSError ''[Errno 2] No such file or directory'')
   \<and> analyze_file app_world (app_dir @ [''gone.yaml'']) =
       \<lparr>filepath = app_dir @ [''gone.yaml''], status = NEEDS_REVIEW,
        reason = ''Error reading file: [Errno 2] No such file or directory''\<rparr>"
proof -
  have r: "read_text app_world (app_dir @ [''gone.yaml''])
             = Inl (OSError ''[Errno 2] No such file or directory'')"
    by (simp add: app_world_def app_read_def app_dir_def)
  show ?thesis
    using r analyze_file_unreadable [OF r] by simp
qed

section \<open>Reference extraction\<close>

text \<open>
  C10. When the content of a readable \<open>kustomization.yaml\<close> loads without error into a
  value that is not a mapping, the reference set is empty and nothing is reported: the
  fallback pattern is not applied.
\<close>

theorem non_mapping_document:
  assumes "read_text w kustomization_path = Inr content"
    and "safe_load w content = Inr data"
    and "\<forall>kvs. data \<noteq> YDict kvs"
  shows "get_referenced_files w kustomization_path = ({}, [])"
  using assms by (cases data) (simp_all add: get_referenced_files_def)

text \<open>
  A document that is a top-level list: the fallback pattern would find \<open>sidecar.yaml\<close>
  in its text, and the reference set is empty.
\<close>

theorem non_mapping_document_witness:
  "read_text (app_world_with (Inr ''- sidecar.yaml'') (Inr (YList [YStr ''sidecar.yaml''])))
      (app_dir @ [''kustomization.yaml'']) = Inr ''- sidecar.yaml''
   \<and> safe_load (app_world_with (Inr ''- sidecar.yaml'') (Inr (YList [YStr ''sidecar.yaml''])))
        ''- sidecar.yaml'' = Inr (YList [YStr ''sidecar.yaml''])
   \<and> (\<forall>kvs. YList [YStr ''sidecar.yaml''] \<noteq> YDict kvs)
   \<and> finditer ''- sidecar.yaml'' 0 = [''sidecar.yaml'']
   \<and> get_referenced_files
        (app_world_with (Inr ''- sidecar.yaml'') (Inr (YList [YStr ''sidecar.yaml''])))
        (app_dir @ [''kustomization.yaml'']) = ({}, [])"
proof -
  let ?w = "app_world_with (Inr ''- sidecar.yaml'') (Inr (YList [YStr ''sidecar.yaml'']))"
  have r: "read_text ?w (app_dir @ [''kustomization.yaml'']) = Inr ''- sidecar.yaml''"
    by (simp add: app_world_with_def)
  have l: "safe_load ?w ''- sidecar.yaml'' = Inr (YList [YStr ''sidecar.yaml''])"
    by (simp add: app_world_with_def)
  have n: "\<forall>kvs. YList [YStr ''sidecar.yaml''] \<noteq> YDict kvs"
    by simp
  have f: "finditer ''- sidecar.yaml'' 0 = [''sidecar.yaml'']"
    by code_simp
  show ?thesis
    using r l n f non_mapping_document [OF r l n] by simp
qed

text \<open>
  C3. A plain string in a recognised list is a file reference unless it is an HTTP(S)
  URL; the claim names the local file \<open>httpd-config.yaml\<close> as one. The code drops every
  string that starts with \<open>http\<close>, and with it this file name: a \<open>kustomization.yaml\<close>
  whose resources are \<open>[httpd-config.yaml]\<close> has an empty reference set.
\<close>

theorem httpd_config_not_referenced:
  "get_referenced_files
     (app_world_with (Inr (''resources:'' @ [NL] @ ''  - httpd-config.yaml'' @ [NL]))
        (Inr (YDict [(YStr ''resources'', YList [YStr ''httpd-config.yaml''])])))
     (app_dir @ [''kustomization.yaml'']) = ({}, [])"
  by code_simp

end
